theory Spec2Isabelle
  imports Main
begin

section \<open>Data model of the direct-messaging backend\<close>

text \<open>
  The development embeds the Mongoose models \<^verbatim>\<open>Conversation\<close> and \<^verbatim>\<open>Message\<close>, the
  middleware \<^verbatim>\<open>canMessageUser\<close> and the routes of \<^verbatim>\<open>routes/messages.js\<close>.

  Conventions of the embedding:
  \<^item> an \<^verbatim>\<open>ObjectId\<close> is a natural number; the source compares ids through
    \<^verbatim>\<open>toString()\<close>, which is equality of ids;
  \<^item> a \<^verbatim>\<open>Date\<close> is an integer number of milliseconds, and every operation that reads the
    clock (\<^verbatim>\<open>new Date()\<close>, \<^verbatim>\<open>Date.now()\<close>) takes the current time as the argument \<open>now\<close>;
  \<^item> a JavaScript string is a \<^typ>\<open>string\<close> of code units below 256;
  \<^item> an HTTP failure \<^verbatim>\<open>res.status(s).json({ message })\<close> is the pair \<open>(s, message)\<close>;
  \<^item> a document method mutates \<^verbatim>\<open>this\<close> and ends in \<^verbatim>\<open>this.save()\<close>: the method is a pure
    function on the document, and the route that calls it writes the result to the store;
  \<^item> the requester of a route is \<^verbatim>\<open>req.user\<close>, the user that the \<^verbatim>\<open>auth\<close> middleware loaded;
  \<^item> the \<^verbatim>\<open>updatedAt\<close> stamps that Mongoose maintains are left out.
\<close>

type_synonym objectId = nat
type_synonym date = int
type_synonym failure = "nat \<times> string"

record unreadCount =
  uc_user :: objectId
  uc_count :: int
  lastReadAt :: date

record participantSetting =
  ps_user :: objectId
  isMuted :: bool
  isPinned :: bool
  isArchived :: bool

record groupInfo =
  group_name :: string
  group_createdBy :: objectId
  group_admins :: "objectId list"

record conversation =
  conv_id :: objectId
  participants :: "objectId list"
  isGroup :: bool
  conv_groupInfo :: "groupInfo option"
  lastMessage :: "objectId option"
  lastMessageAt :: date
  unreadCounts :: "unreadCount list"
  participantSettings :: "participantSetting list"
  conv_isDeleted :: bool
  totalMessages :: int

datatype contentType = Text | Image | Video | Audio | File | Location | Contact

record media =
  media_url :: string
  media_filename :: string
  media_size :: nat

record reaction =
  r_user :: objectId
  emoji :: string
  r_createdAt :: date

record editEntry =
  e_text :: string
  e_editedAt :: date

record message =
  msg_id :: objectId
  msg_conversation :: objectId
  sender :: objectId
  recipient :: objectId
  content_type :: contentType
  content_text :: string
  content_media :: "media option"
  isRead :: bool
  readAt :: "date option"
  isDelivered :: bool
  deliveredAt :: "date option"
  reactions :: "reaction list"
  replyTo :: "objectId option"
  isEdited :: bool
  editedAt :: "date option"
  editHistory :: "editEntry list"
  isDeleted :: bool
  deletedAt :: "date option"
  deletedBy :: "objectId option"
  scheduledFor :: "date option"
  isScheduled :: bool
  createdAt :: date

record user =
  user_id :: objectId
  followers :: "objectId list"
  blockedUsers :: "objectId list"
  allowMessagesFrom :: string

text \<open>The document store: the three collections, each in its natural order.\<close>

record db =
  users :: "user list"
  conversations :: "conversation list"
  messages :: "message list"

section \<open>Array and string helpers\<close>

text \<open>
  \<^verbatim>\<open>arr.find(p)\<close> is \<^const>\<open>find\<close>. The methods assign to a field of the element that
  \<^verbatim>\<open>find\<close> returned, which changes the first matching element of the array in place.
\<close>

fun update_first :: "('a \<Rightarrow> bool) \<Rightarrow> ('a \<Rightarrow> 'a) \<Rightarrow> 'a list \<Rightarrow> 'a list" where
  "update_first P f [] = []"
| "update_first P f (x # xs) = (if P x then f x # xs else x # update_first P f xs)"

text \<open>
  \<^verbatim>\<open>String.prototype.trim\<close>: white space and line terminators among the code units
  below 256 are TAB, LF, VT, FF, CR, SP and NBSP.
\<close>

definition is_ws :: "char \<Rightarrow> bool" where
  "is_ws c = (of_char c \<in> {9, 10, 11, 12, 13, 32, 160 :: nat})"

definition trim :: "string \<Rightarrow> string" where
  "trim s = rev (dropWhile is_ws (rev (dropWhile is_ws s)))"

definition startsWith :: "string \<Rightarrow> string \<Rightarrow> bool" where
  "startsWith s p = (take (length p) s = p)"

text \<open>A new \<^verbatim>\<open>ObjectId\<close> differs from every id of the collection.\<close>

definition newObjectId :: "objectId list \<Rightarrow> objectId" where
  "newObjectId ids = Suc (fold max ids 0)"

section \<open>Conversation model\<close>

text \<open>The virtual \<^verbatim>\<open>getUnreadCount\<close>.\<close>

definition getUnreadCount :: "conversation \<Rightarrow> objectId \<Rightarrow> int" where
  "getUnreadCount c userId =
     (case find (\<lambda>d. uc_user d = userId) (unreadCounts c) of
        Some unreadData \<Rightarrow> uc_count unreadData
      | None \<Rightarrow> 0)"

definition addParticipant :: "conversation \<Rightarrow> objectId \<Rightarrow> date \<Rightarrow> conversation" where
  "addParticipant c userId now =
     (if userId \<notin> set (participants c)
      then c\<lparr>participants := participants c @ [userId],
             unreadCounts := unreadCounts c @
               [\<lparr>uc_user = userId, uc_count = 0, lastReadAt = now\<rparr>],
             participantSettings := participantSettings c @
               [\<lparr>ps_user = userId, isMuted = False, isPinned = False, isArchived = False\<rparr>]\<rparr>
      else c)"

definition removeParticipant :: "conversation \<Rightarrow> objectId \<Rightarrow> conversation" where
  "removeParticipant c userId =
     c\<lparr>participants := filter (\<lambda>i. i \<noteq> userId) (participants c),
       unreadCounts := filter (\<lambda>d. uc_user d \<noteq> userId) (unreadCounts c),
       participantSettings := filter (\<lambda>s. ps_user s \<noteq> userId) (participantSettings c)\<rparr>"

definition updateLastMessage :: "conversation \<Rightarrow> objectId \<Rightarrow> date \<Rightarrow> conversation" where
  "updateLastMessage c messageId now =
     c\<lparr>lastMessage := Some messageId,
       lastMessageAt := now,
       totalMessages := totalMessages c + 1\<rparr>"

definition incrementUnreadCount :: "conversation \<Rightarrow> objectId \<Rightarrow> conversation" where
  "incrementUnreadCount c userId =
     c\<lparr>unreadCounts := update_first (\<lambda>d. uc_user d = userId)
                          (\<lambda>d. d\<lparr>uc_count := uc_count d + 1\<rparr>) (unreadCounts c)\<rparr>"

definition markAsRead :: "conversation \<Rightarrow> objectId \<Rightarrow> date \<Rightarrow> conversation" where
  "markAsRead c userId now =
     c\<lparr>unreadCounts := update_first (\<lambda>d. uc_user d = userId)
                          (\<lambda>d. d\<lparr>uc_count := 0, lastReadAt := now\<rparr>) (unreadCounts c)\<rparr>"

definition muteForUser :: "conversation \<Rightarrow> objectId \<Rightarrow> conversation" where
  "muteForUser c userId =
     c\<lparr>participantSettings := update_first (\<lambda>s. ps_user s = userId)
                                 (\<lambda>s. s\<lparr>isMuted := True\<rparr>) (participantSettings c)\<rparr>"

definition unmuteForUser :: "conversation \<Rightarrow> objectId \<Rightarrow> conversation" where
  "unmuteForUser c userId =
     c\<lparr>participantSettings := update_first (\<lambda>s. ps_user s = userId)
                                 (\<lambda>s. s\<lparr>isMuted := False\<rparr>) (participantSettings c)\<rparr>"

section \<open>Message model\<close>

definition markAsDelivered :: "message \<Rightarrow> date \<Rightarrow> message" where
  "markAsDelivered m now =
     (if \<not> isDelivered m then m\<lparr>isDelivered := True, deliveredAt := Some now\<rparr> else m)"

text \<open>The pushed reaction has no \<^verbatim>\<open>createdAt\<close>; the schema default \<^verbatim>\<open>Date.now\<close> fills it.\<close>

definition addReaction :: "message \<Rightarrow> objectId \<Rightarrow> string \<Rightarrow> date \<Rightarrow> message" where
  "addReaction m userId e now =
     m\<lparr>reactions := filter (\<lambda>r. r_user r \<noteq> userId) (reactions m) @
                       [\<lparr>r_user = userId, emoji = e, r_createdAt = now\<rparr>]\<rparr>"

definition removeReaction :: "message \<Rightarrow> objectId \<Rightarrow> message" where
  "removeReaction m userId =
     m\<lparr>reactions := filter (\<lambda>r. r_user r \<noteq> userId) (reactions m)\<rparr>"

definition hasReactionFrom :: "message \<Rightarrow> objectId \<Rightarrow> bool" where
  "hasReactionFrom m userId = list_ex (\<lambda>r. r_user r = userId) (reactions m)"

definition getUserReaction :: "message \<Rightarrow> objectId \<Rightarrow> string option" where
  "getUserReaction m userId =
     (case find (\<lambda>r. r_user r = userId) (reactions m) of
        Some r \<Rightarrow> Some (emoji r)
      | None \<Rightarrow> None)"

text \<open>
  \<^verbatim>\<open>edit\<close> changes a text message only; any other message is saved as it is. The
  assignment to \<^verbatim>\<open>content.text\<close> goes through the schema's \<^verbatim>\<open>trim\<close> setter.
\<close>

definition edit :: "message \<Rightarrow> string \<Rightarrow> date \<Rightarrow> message" where
  "edit m newText now =
     (if content_type m = Text
      then m\<lparr>editHistory := editHistory m @ [\<lparr>e_text = content_text m, e_editedAt = now\<rparr>],
             content_text := trim newText,
             isEdited := True,
             editedAt := Some now\<rparr>
      else m)"

definition softDelete :: "message \<Rightarrow> objectId \<Rightarrow> date \<Rightarrow> message" where
  "softDelete m userId now =
     m\<lparr>isDeleted := True, deletedAt := Some now, deletedBy := Some userId\<rparr>"

text \<open>The reactions a message records for one user, and the one-per-user invariant.\<close>

definition reactionsOf :: "message \<Rightarrow> objectId \<Rightarrow> reaction list" where
  "reactionsOf m userId = filter (\<lambda>r. r_user r = userId) (reactions m)"

definition oneReactionPerUser :: "message \<Rightarrow> bool" where
  "oneReactionPerUser m = distinct (map r_user (reactions m))"

text \<open>
  Schema validation on \<^verbatim>\<open>save\<close>: \<^verbatim>\<open>content.text\<close> has \<^verbatim>\<open>maxlength: 1000\<close>. (The required
  \<^verbatim>\<open>recipient\<close> is checked where the send route computes it.) A save validates a new
  document, and the paths that were assigned in a loaded one. A failed validation rejects
  the save, which the route's \<^verbatim>\<open>catch\<close> turns into status 500.
\<close>

definition validateMessage :: "message \<Rightarrow> bool" where
  "validateMessage m = (length (content_text m) \<le> 1000)"

text \<open>The \<^verbatim>\<open>pre('save')\<close> hook for scheduled messages.\<close>

definition preSave :: "message \<Rightarrow> date \<Rightarrow> message" where
  "preSave m now =
     (case scheduledFor m of
        Some t \<Rightarrow> (if isScheduled m \<and> now \<ge> t
                   then m\<lparr>isScheduled := False, scheduledFor := None\<rparr> else m)
      | None \<Rightarrow> m)"

section \<open>The store\<close>

definition findConversationById :: "db \<Rightarrow> objectId \<Rightarrow> conversation option" where
  "findConversationById d i = find (\<lambda>c. conv_id c = i) (conversations d)"

definition findMessageById :: "db \<Rightarrow> objectId \<Rightarrow> message option" where
  "findMessageById d i = find (\<lambda>m. msg_id m = i) (messages d)"

definition findUserById :: "db \<Rightarrow> objectId \<Rightarrow> user option" where
  "findUserById d i = find (\<lambda>u. user_id u = i) (users d)"

text \<open>
  \<^verbatim>\<open>populate(path, 'username fullName profilePicture isVerified')\<close> replaces a user id by
  the stored user, loaded with these four fields only; an id without a stored user becomes
  \<^verbatim>\<open>null\<close>, or is dropped from a populated array. \<open>populateUsers\<close> gives the ids that
  resolve to a user document.
\<close>

definition populateUsers :: "db \<Rightarrow> objectId list \<Rightarrow> objectId list" where
  "populateUsers d ids = filter (\<lambda>i. findUserById d i \<noteq> None) ids"

text \<open>
  \<^verbatim>\<open>res.json\<close> of a document that holds populated users. The User schema serialises with
  \<^verbatim>\<open>toJSON: { virtuals: true }\<close>, and its virtual \<^verbatim>\<open>followerCount\<close> reads
  \<^verbatim>\<open>this.followers.length\<close>; a populated user has no \<^verbatim>\<open>followers\<close>, so serialising one throws
  inside the route's \<^verbatim>\<open>try\<close>, and the \<^verbatim>\<open>catch\<close> answers 500 \<^verbatim>\<open>Server error\<close>, after
  the writes of the route are done. The answer is the payload only when no populated user
  is serialised. (The payload of the model is the document with its ids; in such an answer
  the user references are the unresolved ones.)
\<close>

definition resJson :: "objectId list \<Rightarrow> 'a \<Rightarrow> failure + 'a" where
  "resJson populated payload =
     (if populated = [] then Inr payload else Inl (500, ''Server error''))"

text \<open>Saving a loaded document replaces the stored document of the same id.\<close>

definition saveConversation :: "db \<Rightarrow> conversation \<Rightarrow> db" where
  "saveConversation d c =
     d\<lparr>conversations := map (\<lambda>x. if conv_id x = conv_id c then c else x) (conversations d)\<rparr>"

definition saveMessage :: "db \<Rightarrow> message \<Rightarrow> db" where
  "saveMessage d m =
     d\<lparr>messages := map (\<lambda>x. if msg_id x = msg_id m then m else x) (messages d)\<rparr>"

text \<open>Saving a new document appends it to its collection.\<close>

definition insertConversation :: "db \<Rightarrow> conversation \<Rightarrow> db" where
  "insertConversation d c = d\<lparr>conversations := conversations d @ [c]\<rparr>"

definition insertMessage :: "db \<Rightarrow> message \<Rightarrow> db" where
  "insertMessage d m = d\<lparr>messages := messages d @ [m]\<rparr>"

text \<open>
  \<^verbatim>\<open>new Conversation({ participants, isGroup, groupInfo })\<close>: every other field takes its
  schema default; the array fields \<^verbatim>\<open>unreadCounts\<close> and \<^verbatim>\<open>participantSettings\<close> default to
  the empty array.
\<close>

definition newConversation ::
  "objectId \<Rightarrow> objectId list \<Rightarrow> bool \<Rightarrow> groupInfo option \<Rightarrow> date \<Rightarrow> conversation" where
  "newConversation i ps g gi now =
     \<lparr>conv_id = i, participants = ps, isGroup = g, conv_groupInfo = gi,
      lastMessage = None, lastMessageAt = now,
      unreadCounts = [], participantSettings = [],
      conv_isDeleted = False, totalMessages = 0\<rparr>"

section \<open>Middleware \<^verbatim>\<open>canMessageUser\<close>\<close>

text \<open>
  \<open>None\<close> stands for \<^verbatim>\<open>next()\<close>. A request without \<^verbatim>\<open>recipientId\<close> reaches
  \<^verbatim>\<open>User.findById(undefined)\<close>, which finds nothing.
\<close>

definition canMessageUser :: "db \<Rightarrow> user \<Rightarrow> objectId option \<Rightarrow> failure option" where
  "canMessageUser d currentUser recipientId =
     (if Some (user_id currentUser) = recipientId
      then Some (400, ''Cannot message yourself'')
      else case recipientId of
        None \<Rightarrow> Some (404, ''Recipient not found'')
      | Some rid \<Rightarrow>
         (case findUserById d rid of
            None \<Rightarrow> Some (404, ''Recipient not found'')
          | Some recipientUser \<Rightarrow>
              if user_id currentUser \<in> set (blockedUsers recipientUser)
              then Some (403, ''Cannot send message to this user'')
              else if rid \<in> set (blockedUsers currentUser)
              then Some (403, ''Cannot send message to this user'')
              else if allowMessagesFrom recipientUser = ''followers''
                      \<and> user_id currentUser \<notin> set (followers recipientUser)
              then Some (403, ''This user only accepts messages from followers'')
              else None))"

section \<open>Routes of \<^verbatim>\<open>routes/messages.js\<close>\<close>

text \<open>
  Every route returns the store after the request and the response: \<open>Inl\<close> a failure,
  \<open>Inr\<close> the document(s) of a success response. A route that has written to the store
  and then fails to serialise its response returns the new store and the failure.
\<close>

subsection \<open>\<^verbatim>\<open>POST /conversations\<close>\<close>

record groupInfoReq =
  gi_name :: string
  gi_participants :: "objectId list"

record conversationBody =
  req_recipientId :: "objectId option"
  req_isGroup :: bool
  req_groupInfo :: "groupInfoReq option"

text \<open>
  The filter of the \<^verbatim>\<open>findOne\<close> of the direct branch: \<^verbatim>\<open>participants: { $all: [a, b] }\<close>,
  \<^verbatim>\<open>isGroup: false\<close>, \<^verbatim>\<open>isDeleted: { $ne: true }\<close>.
\<close>

definition directBetween :: "objectId \<Rightarrow> objectId \<Rightarrow> conversation \<Rightarrow> bool" where
  "directBetween a b c =
     (a \<in> set (participants c) \<and> b \<in> set (participants c) \<and> \<not> isGroup c \<and> \<not> conv_isDeleted c)"

definition createConversation ::
  "db \<Rightarrow> date \<Rightarrow> user \<Rightarrow> conversationBody \<Rightarrow> db \<times> (failure + conversation)" where
  "createConversation d now currentUser body =
     (case canMessageUser d currentUser (req_recipientId body) of
        Some err \<Rightarrow> (d, Inl err)
      | None \<Rightarrow>
         if req_isGroup body then
           (case req_groupInfo body of
              None \<Rightarrow> (d, Inl (400, ''Group name is required''))
            | Some gi \<Rightarrow>
               if gi_name gi = [] then (d, Inl (400, ''Group name is required''))
               else if length (trim (gi_name gi)) > 50 then (d, Inl (500, ''Server error''))
               else
                 let c = newConversation (newObjectId (map conv_id (conversations d)))
                           (user_id currentUser # gi_participants gi) True
                           (Some \<lparr>group_name = trim (gi_name gi),
                                  group_createdBy = user_id currentUser,
                                  group_admins = [user_id currentUser]\<rparr>) now
                 in (insertConversation d c, resJson (populateUsers d (participants c)) c))
         else
           (case req_recipientId body of
              None \<Rightarrow> (d, Inl (404, ''Recipient not found''))
            | Some rid \<Rightarrow>
               (case find (directBetween (user_id currentUser) rid) (conversations d) of
                  Some c \<Rightarrow> (d, resJson (populateUsers d (participants c)) c)
                | None \<Rightarrow>
                   let c = newConversation (newObjectId (map conv_id (conversations d)))
                             [user_id currentUser, rid] False None now
                   in (insertConversation d c, resJson (populateUsers d (participants c)) c))))"

subsection \<open>\<^verbatim>\<open>GET /conversations/:conversationId\<close>\<close>


subsection \<open>\<^verbatim>\<open>GET /conversations/:conversationId/messages\<close>\<close>

text \<open>
  \<^verbatim>\<open>Message.find(...).sort({ createdAt: -1 }).limit(limit).skip(skip)\<close>: the matching
  messages, newest first, \<open>skip\<close> of them dropped, then at most \<open>limit\<close> of them
  taken (the store applies skip before limit whatever the order of the calls, and a limit of
  0 is no limit). The order among equal \<^verbatim>\<open>createdAt\<close> is the store's choice; here the later
  insertion comes first.
\<close>

definition queryMessages :: "db \<Rightarrow> objectId \<Rightarrow> nat \<Rightarrow> nat \<Rightarrow> message list" where
  "queryMessages d conversationId limit skip =
     (let matching = filter (\<lambda>m. msg_conversation m = conversationId \<and> \<not> isDeleted m)
                       (messages d);
          sorted_desc = rev (sort_key createdAt matching);
          skipped = drop skip sorted_desc
      in if limit = 0 then skipped else take limit skipped)"

text \<open>
  The \<^verbatim>\<open>forEach\<close> callback reads \<^verbatim>\<open>message.recipient._id\<close> of the populated recipient: a
  message whose recipient resolves to the requester and that is not yet delivered is marked
  delivered and saved (through the \<^verbatim>\<open>pre('save')\<close> hook). The callbacks are started before
  the response is built and are not awaited; the model takes their saves as completed. (On
  a recipient without a stored user the callback throws outside the route's \<^verbatim>\<open>try\<close>; the
  message stays as it is.)
\<close>

definition deliverTo :: "db \<Rightarrow> objectId \<Rightarrow> date \<Rightarrow> message \<Rightarrow> message" where
  "deliverTo d userId now m =
     (if findUserById d (recipient m) \<noteq> None \<and> recipient m = userId \<and> \<not> isDelivered m
      then preSave (markAsDelivered m now) now else m)"

text \<open>
  \<open>limit\<close> and \<open>page\<close> are the numbers of the query string, defaults 50 and 1. A negative
  \<^verbatim>\<open>skip\<close> (page 0) is rejected by the store, and the \<^verbatim>\<open>catch\<close> answers 500. The query
  populates \<^verbatim>\<open>sender\<close> and \<^verbatim>\<open>recipient\<close> of every message of the page, so the response
  serialises a populated user as soon as the page holds a message whose sender or recipient
  is a stored user. (The populate of \<^verbatim>\<open>replyTo\<close> and the \<^verbatim>\<open>pagination\<close> block of the response
  are not part of the model.)
\<close>

definition listMessages ::
  "db \<Rightarrow> date \<Rightarrow> objectId \<Rightarrow> objectId \<Rightarrow> nat option \<Rightarrow> nat option
     \<Rightarrow> db \<times> (failure + message list)" where
  "listMessages d now userId conversationId limitQ pageQ =
     (let limit = (case limitQ of None \<Rightarrow> 50 | Some l \<Rightarrow> l);
          page = (case pageQ of None \<Rightarrow> 1 | Some p \<Rightarrow> p);
          skip = (int page - 1) * int limit
      in case findConversationById d conversationId of
        None \<Rightarrow> (d, Inl (404, ''Conversation not found''))
      | Some c \<Rightarrow>
         if \<not> list_ex (\<lambda>p. p = userId) (participants c)
         then (d, Inl (403, ''Not authorized to access this conversation''))
         else if skip < 0 then (d, Inl (500, ''Server error''))
         else
           let found = queryMessages d conversationId limit (nat skip);
               populated = populateUsers d (concat (map (\<lambda>m. [sender m, recipient m]) found));
               d1 = saveConversation d (markAsRead c userId now);
               delivered = map (deliverTo d userId now) found;
               d2 = fold (\<lambda>m s. saveMessage s (deliverTo d userId now m))
                      (filter (\<lambda>m. findUserById d (recipient m) \<noteq> None
                                    \<and> recipient m = userId \<and> \<not> isDelivered m) found) d1
           in (d2, resJson populated (rev delivered)))"

subsection \<open>\<^verbatim>\<open>POST /conversations/:conversationId/messages\<close>\<close>

record upload =
  mimetype :: string
  filename :: string
  originalname :: string
  file_size :: nat

record sendBody =
  body_text :: "string option"
  body_replyTo :: "objectId option"
  body_scheduledFor :: "date option"

text \<open>
  The middleware \<^verbatim>\<open>uploadMessageMedia\<close> (multer, \<^verbatim>\<open>upload.single('messageMedia')\<close>) runs
  before the handler: its \<^verbatim>\<open>fileFilter\<close> accepts the listed image and video types only, and
  the size limit is 50 MB. A refused upload goes to the error handler of the application,
  which answers 500 \<^verbatim>\<open>Something went wrong!\<close>.
\<close>

definition fileFilter :: "upload \<Rightarrow> bool" where
  "fileFilter f =
     (mimetype f \<in> set [''image/jpeg'', ''image/jpg'', ''image/png'', ''image/gif'',
                          ''image/webp'']
      \<or> mimetype f \<in> set [''video/mp4'', ''video/avi'', ''video/mov'', ''video/wmv'',
                            ''video/flv'', ''video/webm''])"

definition uploadMessageMedia :: "upload option \<Rightarrow> bool" where
  "uploadMessageMedia file =
     (case file of
        None \<Rightarrow> True
      | Some f \<Rightarrow> fileFilter f \<and> file_size f \<le> 50 * 1024 * 1024)"

text \<open>\<^verbatim>\<open>getFileUrl\<close>, with \<^verbatim>\<open>BASE_URL\<close> unset.\<close>

definition getFileUrl :: "string \<Rightarrow> string \<Rightarrow> string" where
  "getFileUrl fname type = ''http://localhost:5000'' @ ''/uploads/'' @ type @ ''/'' @ fname"

definition messageContentType :: "upload option \<Rightarrow> contentType" where
  "messageContentType file =
     (case file of
        None \<Rightarrow> Text
      | Some f \<Rightarrow>
          if startsWith (mimetype f) ''image/'' then Image
          else if startsWith (mimetype f) ''video/'' then Video
          else if startsWith (mimetype f) ''audio/'' then Audio
          else File)"

definition messageMedia :: "upload option \<Rightarrow> media option" where
  "messageMedia file =
     (case file of
        None \<Rightarrow> None
      | Some f \<Rightarrow> Some \<lparr>media_url = getFileUrl (filename f) ''messages'',
                         media_filename = originalname f,
                         media_size = file_size f\<rparr>)"

text \<open>
  \<^verbatim>\<open>new Message({...})\<close> of the route: \<^verbatim>\<open>text || ''\<close> through the \<^verbatim>\<open>trim\<close> setter, the
  other fields at their schema defaults, \<^verbatim>\<open>createdAt\<close> stamped at the save.
\<close>

definition newMessage ::
  "objectId \<Rightarrow> objectId \<Rightarrow> objectId \<Rightarrow> objectId \<Rightarrow> sendBody \<Rightarrow> upload option \<Rightarrow> date
     \<Rightarrow> message" where
  "newMessage i conversationId userId recipientId body file now =
     \<lparr>msg_id = i, msg_conversation = conversationId, sender = userId, recipient = recipientId,
      content_type = messageContentType file,
      content_text = trim (case body_text body of None \<Rightarrow> [] | Some t \<Rightarrow> t),
      content_media = messageMedia file,
      isRead = False, readAt = None, isDelivered = False, deliveredAt = None,
      reactions = [], replyTo = body_replyTo body,
      isEdited = False, editedAt = None, editHistory = [],
      isDeleted = False, deletedAt = None, deletedBy = None,
      scheduledFor = body_scheduledFor body,
      isScheduled = (body_scheduledFor body \<noteq> None),
      createdAt = now\<rparr>"

text \<open>The mute test of the route: \<^verbatim>\<open>userSetting && userSetting.isMuted\<close>.\<close>

definition mutedFor :: "conversation \<Rightarrow> objectId \<Rightarrow> bool" where
  "mutedFor c userId =
     (case find (\<lambda>s. ps_user s = userId) (participantSettings c) of
        Some userSetting \<Rightarrow> isMuted userSetting
      | None \<Rightarrow> False)"

text \<open>
  The recipient of a direct message is the first participant other than the sender; in a
  group it stays the sender. A missing recipient fails the \<^verbatim>\<open>required\<close> validation.
\<close>

definition recipientOf :: "conversation \<Rightarrow> objectId \<Rightarrow> objectId option" where
  "recipientOf c userId =
     (if \<not> isGroup c then find (\<lambda>p. p \<noteq> userId) (participants c) else Some userId)"

text \<open>The message document that the route builds and saves.\<close>

definition sentMessage ::
  "db \<Rightarrow> date \<Rightarrow> objectId \<Rightarrow> objectId \<Rightarrow> objectId \<Rightarrow> sendBody \<Rightarrow> upload option
     \<Rightarrow> message" where
  "sentMessage d now userId conversationId rid body file =
     preSave (newMessage (newObjectId (map msg_id (messages d)))
                conversationId userId rid body file now) now"

text \<open>
  After the message is saved and the conversation updated, the route populates \<^verbatim>\<open>sender\<close>
  and \<^verbatim>\<open>recipient\<close> of the message and serialises it. (The populate of \<^verbatim>\<open>replyTo\<close> is not
  part of the model.)
\<close>

definition sendMessage ::
  "db \<Rightarrow> date \<Rightarrow> objectId \<Rightarrow> objectId \<Rightarrow> sendBody \<Rightarrow> upload option
     \<Rightarrow> db \<times> (failure + message)" where
  "sendMessage d now userId conversationId body file =
     (if \<not> uploadMessageMedia file then (d, Inl (500, ''Something went wrong!''))
      else
       (case findConversationById d conversationId of
          None \<Rightarrow> (d, Inl (404, ''Conversation not found''))
        | Some c \<Rightarrow>
           if \<not> list_ex (\<lambda>p. p = userId) (participants c)
           then (d, Inl (403, ''Not authorized to send messages in this conversation''))
           else if mutedFor c userId
           then (d, Inl (400, ''Cannot send messages in muted conversation''))
           else
             (case recipientOf c userId of
                None \<Rightarrow> (d, Inl (500, ''Server error''))
              | Some rid \<Rightarrow>
                 let m = sentMessage d now userId conversationId rid body file
                 in if \<not> validateMessage m then (d, Inl (500, ''Server error''))
                    else
                      let d1 = insertMessage d m;
                          c1 = updateLastMessage c (msg_id m) now;
                          c2 = (if \<not> isGroup c then incrementUnreadCount c1 rid else c1)
                      in (saveConversation d1 c2,
                          resJson (populateUsers d [userId, rid]) m))))"

subsection \<open>\<^verbatim>\<open>PUT /:messageId\<close>\<close>

text \<open>
  The guards in the order of the source: the new text, the message and its \<^verbatim>\<open>isDeleted\<close>
  flag, the sender, the age of the message. \<^verbatim>\<open>edit\<close> assigns the text of a text message
  only, so only then does the save validate it. After the save the route populates
  \<^verbatim>\<open>sender\<close> and \<^verbatim>\<open>recipient\<close> and serialises the message.
\<close>

definition editMessage ::
  "db \<Rightarrow> date \<Rightarrow> objectId \<Rightarrow> objectId \<Rightarrow> string option \<Rightarrow> db \<times> (failure + message)" where
  "editMessage d now userId messageId textQ =
     (case textQ of
        None \<Rightarrow> (d, Inl (400, ''Message text is required''))
      | Some t \<Rightarrow>
         if t = [] \<or> length (trim t) = 0 then (d, Inl (400, ''Message text is required''))
         else
           (case findMessageById d messageId of
              None \<Rightarrow> (d, Inl (404, ''Message not found''))
            | Some m \<Rightarrow>
               if isDeleted m then (d, Inl (404, ''Message not found''))
               else if sender m \<noteq> userId
               then (d, Inl (403, ''Not authorized to edit this message''))
               else if now - createdAt m > 15 * 60 * 1000
               then (d, Inl (400, ''Message is too old to edit''))
               else
                 let m' = preSave (edit m (trim t) now) now
                 in if content_type m = Text \<and> \<not> validateMessage m'
                    then (d, Inl (500, ''Server error''))
                    else (saveMessage d m',
                          resJson (populateUsers d [sender m', recipient m']) m')))"

subsection \<open>\<^verbatim>\<open>POST\<close> and \<^verbatim>\<open>DELETE /conversations/:conversationId/mute\<close>\<close>

definition muteConversation ::
  "db \<Rightarrow> objectId \<Rightarrow> objectId \<Rightarrow> db \<times> (failure + unit)" where
  "muteConversation d userId conversationId =
     (case findConversationById d conversationId of
        None \<Rightarrow> (d, Inl (404, ''Conversation not found''))
      | Some c \<Rightarrow>
         if \<not> list_ex (\<lambda>p. p = userId) (participants c)
         then (d, Inl (403, ''Not authorized to mute this conversation''))
         else (saveConversation d (muteForUser c userId), Inr ()))"

definition unmuteConversation ::
  "db \<Rightarrow> objectId \<Rightarrow> objectId \<Rightarrow> db \<times> (failure + unit)" where
  "unmuteConversation d userId conversationId =
     (case findConversationById d conversationId of
        None \<Rightarrow> (d, Inl (404, ''Conversation not found''))
      | Some c \<Rightarrow>
         if \<not> list_ex (\<lambda>p. p = userId) (participants c)
         then (d, Inl (403, ''Not authorized to unmute this conversation''))
         else (saveConversation d (unmuteForUser c userId), Inr ()))"

section \<open>Predicates and runs used by the properties\<close>

text \<open>A participant has an entry in \<^verbatim>\<open>unreadCounts\<close>.\<close>

definition hasUnreadEntry :: "conversation \<Rightarrow> objectId \<Rightarrow> bool" where
  "hasUnreadEntry c userId = (userId \<in> uc_user ` set (unreadCounts c))"

text \<open>
  The text the send route stores, \<^verbatim>\<open>text || ''\<close> trimmed, is empty (the request carried
  no text, an empty one or white space only), respectively passes the length validator.
\<close>

definition blankText :: "sendBody \<Rightarrow> bool" where
  "blankText body = (trim (case body_text body of None \<Rightarrow> [] | Some t \<Rightarrow> t) = [])"


text \<open>
  A run of send requests into one conversation: each request works on the store that the
  request before it left, whatever the answers were.
\<close>

record sendRequest =
  sr_now :: date
  sr_user :: objectId
  sr_body :: sendBody
  sr_file :: "upload option"




section \<open>A small store for concrete runs\<close>

text \<open>
  Users 1 and 2 accept messages from everyone, user 3 from followers only (user 1 follows
  user 3); a direct conversation (id 5) of users 1 and 2 and a group (id 7) of users 1, 2
  and 3, both with the per-participant entries that \<^verbatim>\<open>addParticipant\<close> creates.
\<close>

definition ex_alice :: user where
  "ex_alice = \<lparr>user_id = 1, followers = [], blockedUsers = [], allowMessagesFrom = ''everyone''\<rparr>"

definition ex_bob :: user where
  "ex_bob = \<lparr>user_id = 2, followers = [], blockedUsers = [], allowMessagesFrom = ''everyone''\<rparr>"

definition ex_carol :: user where
  "ex_carol = \<lparr>user_id = 3, followers = [1], blockedUsers = [], allowMessagesFrom = ''followers''\<rparr>"

definition ex_db0 :: db where
  "ex_db0 = \<lparr>users = [ex_alice, ex_bob, ex_carol], conversations = [], messages = []\<rparr>"

definition ex_direct_body :: conversationBody where
  "ex_direct_body = \<lparr>req_recipientId = Some 2, req_isGroup = False, req_groupInfo = None\<rparr>"

definition ex_created :: conversation where
  "ex_created = newConversation 1 [1, 2] False None 1000"

definition ex_carol_body :: conversationBody where
  "ex_carol_body = \<lparr>req_recipientId = Some 3, req_isGroup = False, req_groupInfo = None\<rparr>"

definition ex_created_carol :: conversation where
  "ex_created_carol = newConversation 1 [1, 3] False None 1000"

text \<open>The store after user 1 has asked for a conversation with user 2.\<close>

definition ex_db_created :: db where
  "ex_db_created = insertConversation ex_db0 ex_created"

definition ex_direct :: conversation where
  "ex_direct = addParticipant (addParticipant (newConversation 5 [] False None 0) 1 0) 2 0"

definition ex_group :: conversation where
  "ex_group =
     addParticipant (addParticipant (addParticipant
       (newConversation 7 [] True
          (Some \<lparr>group_name = ''team'', group_createdBy = 1, group_admins = [1]\<rparr>) 0)
       1 0) 2 0) 3 0"

definition ex_db1 :: db where
  "ex_db1 = \<lparr>users = [ex_alice, ex_bob, ex_carol], conversations = [ex_direct, ex_group],
             messages = []\<rparr>"

definition ex_hello :: sendBody where
  "ex_hello = \<lparr>body_text = Some ''hi'', body_replyTo = None, body_scheduledFor = None\<rparr>"

definition ex_blank :: sendBody where
  "ex_blank = \<lparr>body_text = Some ''   '', body_replyTo = None, body_scheduledFor = None\<rparr>"

definition ex_blank_message :: message where
  "ex_blank_message = newMessage 1 5 1 2 ex_blank None 1000"

definition ex_send1 :: sendRequest where
  "ex_send1 = \<lparr>sr_now = 1000, sr_user = 1, sr_body = ex_hello, sr_file = None\<rparr>"

definition ex_send2 :: sendRequest where
  "ex_send2 = \<lparr>sr_now = 2000, sr_user = 1, sr_body = ex_hello, sr_file = None\<rparr>"

text \<open>The direct conversation after user 1 has muted it.\<close>

definition ex_db_muted :: db where
  "ex_db_muted = fst (muteConversation ex_db1 1 5)"

text \<open>
  Messages of conversation 5 created at times 300, 100 and 200, the last one deleted, and
  a message sent by user 1 at time 0.
\<close>

definition ex_m1 :: message where
  "ex_m1 = newMessage 1 5 1 2 ex_hello None 300"

definition ex_m2 :: message where
  "ex_m2 = newMessage 2 5 2 1 ex_hello None 100"

definition ex_m3 :: message where
  "ex_m3 = softDelete (newMessage 3 5 1 2 ex_hello None 200) 1 250"

definition ex_db_list :: db where
  "ex_db_list = ex_db1\<lparr>messages := [ex_m1, ex_m2, ex_m3]\<rparr>"

definition ex_old_message :: message where
  "ex_old_message = newMessage 1 5 1 2 ex_hello None 0"

definition ex_db_old :: db where
  "ex_db_old = ex_db1\<lparr>messages := [ex_old_message]\<rparr>"

definition ex_db_deleted :: db where
  "ex_db_deleted = ex_db1\<lparr>messages := [softDelete ex_old_message 1 500]\<rparr>"

definition ex_sent_message :: message where
  "ex_sent_message = newMessage 1 5 1 2 ex_hello None 1000"

definition ex_reacted :: message where
  "ex_reacted = addReaction ex_old_message 1 ''like'' 10"

section \<open>Auxiliary facts\<close>

lemmas ex_defs =
  ex_alice_def ex_bob_def ex_carol_def ex_db0_def ex_direct_body_def ex_created_def
  ex_carol_body_def ex_created_carol_def ex_db_created_def ex_direct_def ex_group_def
  ex_db1_def ex_hello_def ex_blank_def ex_blank_message_def ex_send1_def ex_send2_def
  ex_m1_def ex_m2_def ex_m3_def ex_db_list_def ex_old_message_def ex_db_old_def
  ex_db_deleted_def ex_sent_message_def ex_reacted_def

lemmas model_defs =
  newConversation_def addParticipant_def findConversationById_def findUserById_def
  findMessageById_def canMessageUser_def createConversation_def insertConversation_def
  directBetween_def newObjectId_def sendMessage_def sentMessage_def mutedFor_def
  recipientOf_def newMessage_def preSave_def validateMessage_def messageContentType_def
  messageMedia_def uploadMessageMedia_def populateUsers_def resJson_def
  insertMessage_def saveConversation_def saveMessage_def updateLastMessage_def
  incrementUnreadCount_def markAsRead_def muteForUser_def getUnreadCount_def
  hasUnreadEntry_def trim_def is_ws_def Let_def

subsection \<open>Arrays\<close>

lemma update_first_no_match: "\<forall>x\<in>set xs. \<not> P x \<Longrightarrow> update_first P f xs = xs"
  by (induction xs) auto




subsection \<open>The store\<close>



lemma find_conv_insertMessage [simp]:
  "findConversationById (insertMessage d m) i = findConversationById d i"
  by (simp add: findConversationById_def insertMessage_def)



subsection \<open>Unread counters\<close>




lemma getUnreadCount_updateLastMessage [simp]:
  "getUnreadCount (updateLastMessage c i now) v = getUnreadCount c v"
  by (simp add: getUnreadCount_def updateLastMessage_def)

lemma hasUnreadEntry_increment [simp]:
  "hasUnreadEntry (incrementUnreadCount c u) v = hasUnreadEntry c v"
proof -
  have "map uc_user (update_first (\<lambda>d. uc_user d = u)
          (\<lambda>d. d\<lparr>uc_count := uc_count d + 1\<rparr>) xs) = map uc_user xs"
    for xs :: "unreadCount list"
    by (induction xs) auto
  then have "uc_user ` set (unreadCounts (incrementUnreadCount c u))
             = uc_user ` set (unreadCounts c)"
    unfolding incrementUnreadCount_def by (simp flip: set_map)
  then show ?thesis by (simp add: hasUnreadEntry_def)
qed

subsection \<open>The send route\<close>

lemma preSave_fields [simp]:
  "msg_id (preSave m now) = msg_id m" "recipient (preSave m now) = recipient m"
  "sender (preSave m now) = sender m" "content_text (preSave m now) = content_text m"
  by (auto simp: preSave_def split: option.splits)


lemma sentMessage_fields [simp]:
  "sender (sentMessage d now u cid rid body file) = u"
  "recipient (sentMessage d now u cid rid body file) = rid"
  by (simp_all add: sentMessage_def newMessage_def)




section \<open>Creating a direct conversation\<close>

text \<open>
  C1. The claim: when \<^verbatim>\<open>POST /conversations\<close> finds no direct conversation of the pair, the
  conversation it creates has a zeroed unread counter for each of the two participants.
  The route passes only \<^verbatim>\<open>participants\<close> and \<^verbatim>\<open>isGroup\<close> to the constructor, so
  \<^verbatim>\<open>unreadCounts\<close> and \<^verbatim>\<open>participantSettings\<close> stay at the schema default, the empty array;
  only \<^verbatim>\<open>addParticipant\<close>, which no route calls, pushes the entries. Evaluated on the store
  without conversations: user 1 asks for a conversation with user 2, and the conversation
  that the route stores has no unread entry for either of them. (The response of the call
  is the failure of C7.)
\<close>

theorem createConversation_direct_has_no_unread_entries:
  "createConversation ex_db0 1000 ex_alice ex_direct_body
     = (insertConversation ex_db0 ex_created, Inl (500, ''Server error''))
   \<and> conversations (insertConversation ex_db0 ex_created) = [ex_created]
   \<and> participants ex_created = [1, 2]
   \<and> unreadCounts ex_created = []
   \<and> hasUnreadEntry ex_created 1 = False
   \<and> hasUnreadEntry ex_created 2 = False"
  by (simp add: ex_defs model_defs)

text \<open>
  C7. The claim: for a pair of distinct users without a block and with a permissive privacy
  setting, two calls of \<^verbatim>\<open>POST /conversations\<close> in succession return the same conversation
  id. The route populates \<^verbatim>\<open>participants\<close> without \<^verbatim>\<open>followers\<close>, and serialising a populated
  user throws in the virtual \<^verbatim>\<open>followerCount\<close>: no call returns a conversation. Evaluated
  for user 1 and user 3 (who accepts messages from followers, and whom user 1 follows):
  the middleware lets the request pass, the first call stores conversation 1 and answers
  500, the second call finds that conversation, stores nothing and answers 500.
\<close>

theorem createConversation_twice_answers_server_error:
  "canMessageUser ex_db0 ex_alice (req_recipientId ex_carol_body) = None
   \<and> createConversation ex_db0 1000 ex_alice ex_carol_body
        = (insertConversation ex_db0 ex_created_carol, Inl (500, ''Server error''))
   \<and> createConversation (insertConversation ex_db0 ex_created_carol) 2000 ex_alice ex_carol_body
        = (insertConversation ex_db0 ex_created_carol, Inl (500, ''Server error''))
   \<and> conversations (insertConversation ex_db0 ex_created_carol) = [ex_created_carol]"
  by (simp add: ex_defs model_defs)

section \<open>Per-participant entries\<close>

text \<open>
  C10. For a user without an entry in \<^verbatim>\<open>unreadCounts\<close> and without an entry in
  \<^verbatim>\<open>participantSettings\<close>, the methods \<^verbatim>\<open>incrementUnreadCount\<close>, \<^verbatim>\<open>markAsRead\<close>,
  \<^verbatim>\<open>muteForUser\<close> and \<^verbatim>\<open>unmuteForUser\<close> return the conversation as it was: no entry is
  created, no counter or flag changes, and the methods have no failing branch.
\<close>

theorem no_entry_no_change:
  assumes "userId \<notin> uc_user ` set (unreadCounts c)"
    and "userId \<notin> ps_user ` set (participantSettings c)"
  shows "incrementUnreadCount c userId = c \<and> markAsRead c userId now = c
       \<and> muteForUser c userId = c \<and> unmuteForUser c userId = c"
proof -
  have u: "\<forall>x\<in>set (unreadCounts c). \<not> uc_user x = userId" using assms(1) by auto
  have s: "\<forall>x\<in>set (participantSettings c). \<not> ps_user x = userId" using assms(2) by auto
  show ?thesis
    by (simp add: incrementUnreadCount_def markAsRead_def muteForUser_def unmuteForUser_def
        update_first_no_match[OF u] update_first_no_match[OF s])
qed

text \<open>C10 at the conversation that the route creates for users 1 and 2, for user 2.\<close>

theorem no_entry_no_change_witness:
  "2 \<notin> uc_user ` set (unreadCounts ex_created)
   \<and> 2 \<notin> ps_user ` set (participantSettings ex_created)
   \<and> incrementUnreadCount ex_created 2 = ex_created \<and> markAsRead ex_created 2 3000 = ex_created
   \<and> muteForUser ex_created 2 = ex_created \<and> unmuteForUser ex_created 2 = ex_created"
proof -
  have h1: "2 \<notin> uc_user ` set (unreadCounts ex_created)"
    and h2: "2 \<notin> ps_user ` set (participantSettings ex_created)"
    by (simp_all add: ex_created_def newConversation_def)
  from no_entry_no_change[OF h1 h2, of 3000] h1 h2 show ?thesis by simp
qed

section \<open>Sending\<close>







text \<open>
  C3. The claim: a send with a text-typed, empty or white-space-only body and no media
  fails with status 400, and no message is persisted. The send route has no such check
  (the edit route has one). Evaluated: user 1 sends the text of three spaces, without a
  file, into the direct conversation 5; the message is stored with the empty text, and the
  answer is status 500 (the failure of C7), not 400.
\<close>

theorem blank_text_send_is_stored:
  "blankText ex_blank
   \<and> snd (sendMessage ex_db1 1000 1 5 ex_blank None) = Inl (500, ''Server error'')
   \<and> messages (fst (sendMessage ex_db1 1000 1 5 ex_blank None)) = [ex_blank_message]
   \<and> content_type ex_blank_message = Text \<and> content_text ex_blank_message = []
   \<and> content_media ex_blank_message = None"
  by (simp add: blankText_def ex_defs model_defs)

text \<open>
  C5. The claim: when participant A has muted a conversation, A's send is refused as muted
  and the send of another participant B succeeds. Evaluated twice. On the conversation that
  \<^verbatim>\<open>POST /conversations\<close> created for users 1 and 2 (no settings entries, C1): the mute route
  answers success for user 1 and changes nothing, and the next send of user 1 is not
  refused as muted; its message is stored. On the conversation 5 with settings entries,
  muted by user 1 through the mute route: the send of user 1 is refused with 400 and
  stores nothing, and the send of user 2 is stored but answered 500 (the failure of C7).
\<close>

theorem mute_then_send_diverges:
  "findConversationById ex_db_created 1 = Some ex_created
   \<and> muteConversation ex_db_created 1 1 = (ex_db_created, Inr ())
   \<and> snd (sendMessage ex_db_created 2000 1 1 ex_hello None) = Inl (500, ''Server error'')
   \<and> map sender (messages (fst (sendMessage ex_db_created 2000 1 1 ex_hello None))) = [1]
   \<and> findConversationById ex_db_muted 5 = Some (muteForUser ex_direct 1)
   \<and> mutedFor (muteForUser ex_direct 1) 1 \<and> mutedFor (muteForUser ex_direct 1) 2 = False
   \<and> sendMessage ex_db_muted 1000 1 5 ex_hello None
        = (ex_db_muted, Inl (400, ''Cannot send messages in muted conversation''))
   \<and> snd (sendMessage ex_db_muted 2000 2 5 ex_hello None) = Inl (500, ''Server error'')
   \<and> map sender (messages (fst (sendMessage ex_db_muted 2000 2 5 ex_hello None))) = [2]"
  by (simp add: ex_db_muted_def muteConversation_def ex_defs model_defs)

section \<open>Editing\<close>

text \<open>
  C6, as the code has it. The edit route tests in this order. A new text that is missing,
  empty or white space only is answered 400 \<^verbatim>\<open>Message text is required\<close>. Otherwise a
  message that is not stored or is deleted is answered 404 \<^verbatim>\<open>Message not found\<close>.
  Otherwise, for a stored message that is not deleted: an edit by anyone but the sender is
  refused with status 403, \<^verbatim>\<open>Not authorized to edit this message\<close>, and an edit by the
  sender more than 15 minutes after the message's creation is refused with status 400,
  \<^verbatim>\<open>Message is too old to edit\<close>, whatever the content of the message. None of these
  changes the store.
\<close>

theorem edit_guards_in_order:
  "editMessage d now u mid None = (d, Inl (400, ''Message text is required''))
   \<and> (trim t = [] \<longrightarrow>
        editMessage d now u mid (Some t) = (d, Inl (400, ''Message text is required'')))
   \<and> (trim t \<noteq> [] \<and> (findMessageById d mid = None
                        \<or> (\<exists>m'. findMessageById d mid = Some m' \<and> isDeleted m')) \<longrightarrow>
        editMessage d now u mid (Some t) = (d, Inl (404, ''Message not found'')))
   \<and> (trim t \<noteq> [] \<and> findMessageById d mid = Some m \<and> \<not> isDeleted m \<and> sender m \<noteq> u \<longrightarrow>
        editMessage d now u mid (Some t)
          = (d, Inl (403, ''Not authorized to edit this message'')))
   \<and> (trim t \<noteq> [] \<and> findMessageById d mid = Some m \<and> \<not> isDeleted m \<and> sender m = u
        \<and> now - createdAt m > 15 * 60 * 1000 \<longrightarrow>
        editMessage d now u mid (Some t) = (d, Inl (400, ''Message is too old to edit'')))"
proof -
  have e: "trim t \<noteq> [] \<Longrightarrow> t \<noteq> []" by (auto simp: trim_def)
  show ?thesis using e by (auto simp: editMessage_def)
qed

text \<open>
  C6 at concrete inputs: the message that user 1 sent at time 0, edited 20 minutes later
  without a text, with the text \<open>''hello''\<close> by user 2 and by user 1, and under an id
  that is not stored.
\<close>

theorem edit_guards_in_order_witness:
  "trim ''hello'' \<noteq> [] \<and> findMessageById ex_db_old 1 = Some ex_old_message
   \<and> findMessageById ex_db_old 9 = None
   \<and> \<not> isDeleted ex_old_message \<and> sender ex_old_message = 1
   \<and> 20 * 60 * 1000 - createdAt ex_old_message > 15 * 60 * 1000
   \<and> editMessage ex_db_old (20 * 60 * 1000) 1 1 None
        = (ex_db_old, Inl (400, ''Message text is required''))
   \<and> editMessage ex_db_old (20 * 60 * 1000) 1 1 (Some [])
        = (ex_db_old, Inl (400, ''Message text is required''))
   \<and> editMessage ex_db_old (20 * 60 * 1000) 1 9 (Some ''hello'')
        = (ex_db_old, Inl (404, ''Message not found''))
   \<and> editMessage ex_db_old (20 * 60 * 1000) 2 1 (Some ''hello'')
        = (ex_db_old, Inl (403, ''Not authorized to edit this message''))
   \<and> editMessage ex_db_old (20 * 60 * 1000) 1 1 (Some ''hello'')
        = (ex_db_old, Inl (400, ''Message is too old to edit''))"
proof -
  have h1: "trim ''hello'' \<noteq> []" and h2: "findMessageById ex_db_old 1 = Some ex_old_message"
    and h2': "findMessageById ex_db_old 9 = None"
    and h3: "\<not> isDeleted ex_old_message" and s: "sender ex_old_message = 1"
    and w: "20 * 60 * 1000 - createdAt ex_old_message > 15 * 60 * 1000"
    and b: "trim [] = []"
    by (simp_all add: ex_defs model_defs)
  from edit_guards_in_order[of ex_db_old "20 * 60 * 1000" 1 1 "[]" ex_old_message]
       edit_guards_in_order[of ex_db_old "20 * 60 * 1000" 1 9 "''hello''" ex_old_message]
       edit_guards_in_order[of ex_db_old "20 * 60 * 1000" 2 1 "''hello''" ex_old_message]
       edit_guards_in_order[of ex_db_old "20 * 60 * 1000" 1 1 "''hello''" ex_old_message]
       h1 h2 h2' h3 s w b
  show ?thesis by simp
qed

text \<open>
  C6 as stated fails: 20 minutes after the creation of the message, an edit by the sender
  with a text of white space is answered \<^verbatim>\<open>Message text is required\<close>, and an edit of the
  deleted message is answered 404 \<^verbatim>\<open>Message not found\<close>; neither is the answer for the
  expired window.
\<close>

theorem edit_after_window_other_answers:
  "sender ex_old_message = 1
   \<and> 20 * 60 * 1000 - createdAt ex_old_message > 15 * 60 * 1000
   \<and> editMessage ex_db_old (20 * 60 * 1000) 1 1 (Some ''   '')
        = (ex_db_old, Inl (400, ''Message text is required''))
   \<and> editMessage ex_db_deleted (20 * 60 * 1000) 1 1 (Some ''hello'')
        = (ex_db_deleted, Inl (404, ''Message not found''))"
  by (simp add: editMessage_def softDelete_def ex_defs model_defs)

section \<open>Reactions\<close>

text \<open>
  C8. \<^verbatim>\<open>addReaction\<close> and \<^verbatim>\<open>removeReaction\<close> preserve the invariant that a message holds at
  most one reaction per user. After \<^verbatim>\<open>addReaction\<close> the message holds exactly one reaction
  of that user, with the emoji just given, also when the user had reacted before with
  another emoji; after \<^verbatim>\<open>removeReaction\<close> it holds none.
\<close>

theorem reactions_one_per_user:
  "(oneReactionPerUser m \<longrightarrow>
      oneReactionPerUser (addReaction m userId e now)
      \<and> oneReactionPerUser (removeReaction m userId))
   \<and> reactionsOf (addReaction m userId e now) userId
       = [\<lparr>r_user = userId, emoji = e, r_createdAt = now\<rparr>]
   \<and> getUserReaction (addReaction m userId e now) userId = Some e
   \<and> reactionsOf (addReaction (addReaction m userId e now) userId e' now') userId
       = [\<lparr>r_user = userId, emoji = e', r_createdAt = now'\<rparr>]
   \<and> getUserReaction (addReaction (addReaction m userId e now) userId e' now') userId = Some e'
   \<and> reactionsOf (removeReaction m userId) userId = []"
proof -
  have f: "find (\<lambda>r. r_user r = userId) (filter (\<lambda>r. r_user r \<noteq> userId) rs @ [x])
           = (if r_user x = userId then Some x else None)"
    for rs :: "reaction list" and x
    by (induction rs) auto
  have g: "filter (\<lambda>r. r_user r = userId) (filter (\<lambda>r. r_user r \<noteq> userId) rs) = []"
    for rs :: "reaction list"
    by (induction rs) auto
  show ?thesis
    by (auto simp: oneReactionPerUser_def addReaction_def removeReaction_def reactionsOf_def
        getUserReaction_def distinct_map_filter f g)
qed

text \<open>
  C8 at a concrete input: user 1 has reacted with \<open>''like''\<close> and reacts again with
  \<open>''love''\<close>.
\<close>

theorem reactions_one_per_user_witness:
  "oneReactionPerUser ex_reacted
   \<and> reactionsOf ex_reacted 1 = [\<lparr>r_user = 1, emoji = ''like'', r_createdAt = 10\<rparr>]
   \<and> oneReactionPerUser (addReaction ex_reacted 1 ''love'' 20)
   \<and> oneReactionPerUser (removeReaction ex_reacted 1)
   \<and> reactionsOf (addReaction ex_reacted 1 ''love'' 20) 1
        = [\<lparr>r_user = 1, emoji = ''love'', r_createdAt = 20\<rparr>]
   \<and> getUserReaction (addReaction ex_reacted 1 ''love'' 20) 1 = Some ''love''"
proof -
  have h: "oneReactionPerUser ex_reacted"
    and r: "reactionsOf ex_reacted 1 = [\<lparr>r_user = 1, emoji = ''like'', r_createdAt = 10\<rparr>]"
    by (simp_all add: oneReactionPerUser_def reactionsOf_def addReaction_def ex_defs model_defs)
  from reactions_one_per_user[where m = ex_reacted and userId = 1 and e = "''love''"
      and now = 20 and e' = "''love''" and now' = 20] h r
  show ?thesis by simp
qed

section \<open>Listing\<close>

text \<open>
  C9. The claim: for a requester who is a participant,
  \<^verbatim>\<open>GET /conversations/:conversationId/messages\<close> returns the page of messages in ascending
  order of creation, without the deleted messages. The query populates \<^verbatim>\<open>sender\<close> and
  \<^verbatim>\<open>recipient\<close> without \<^verbatim>\<open>followers\<close>, and serialising a populated user throws in the virtual
  \<^verbatim>\<open>followerCount\<close>: a page that holds a message is not returned. Evaluated: conversation 5
  holds messages created at 300, 100 and 200, the last one deleted; for user 2 the query
  fetches the messages of times 300 and 100, and the route answers 500. On the store
  without messages the route returns the empty page.
\<close>

theorem listMessages_page_answers_server_error:
  "findConversationById ex_db_list 5 = Some ex_direct \<and> 2 \<in> set (participants ex_direct)
   \<and> queryMessages ex_db_list 5 50 0 = [ex_m1, ex_m2]
   \<and> map createdAt [ex_m1, ex_m2] = [300, 100]
   \<and> snd (listMessages ex_db_list 5000 2 5 None None) = Inl (500, ''Server error'')
   \<and> snd (listMessages ex_db1 5000 2 5 None None) = Inr []"
  by (simp add: listMessages_def queryMessages_def softDelete_def deliverTo_def
      markAsDelivered_def ex_defs model_defs)

end
